theory Spec2Isabelle
  imports Main
begin

section \<open>Enumerations, errors and identifiers\<close>

text \<open>
  The enumerations of \<^verbatim>\<open>~/constants/enum\<close> and the message table of
  \<^verbatim>\<open>~/constants/message\<close> are not among the sources. The members that the code
  names (\<^verbatim>\<open>TokenType.Access\<close>, \<^verbatim>\<open>UserVerifyStatus.Verified\<close>,
  \<^verbatim>\<open>HttpStatusCode.BadRequest\<close>, \<^verbatim>\<open>PRODUCT_MESSAGES.PRODUCT_CATEGORY_NOT_FOUND\<close>, ...) are
  constructors here; \<^verbatim>\<open>UserRole\<close> and \<^verbatim>\<open>UserStatus\<close>, of which the code names no
  member, are the numbers a TypeScript enum is at run time.
\<close>

datatype TokenType = Access | Refresh | VerifyEmail | ForgotPassword

datatype UserVerifyStatus = Unverified | Verified | Banned

type_synonym UserRole = nat

type_synonym UserStatus = nat

datatype HttpStatusCode = BadRequest | NotFound

datatype PRODUCT_MESSAGES =
    PRODUCT_CATEGORY_ID_IS_REQUIRED
  | PRODUCT_CATEGORY_ID_IS_INVALID
  | PRODUCT_CATEGORY_NOT_FOUND

datatype JwtFailure = InvalidSignature | Expired | Malformed

text \<open>
  Everything a call can throw: the \<^verbatim>\<open>ErrorWithStatus\<close> of the middlewares, the
  run time's \<^verbatim>\<open>TypeError\<close> (a property read from \<^verbatim>\<open>null\<close>), the \<^verbatim>\<open>BSONError\<close>
  of \<^verbatim>\<open>new ObjectId(s)\<close> on a malformed string, the failures of the token codec, the
  store's duplicate-key error and a failed mail delivery.
\<close>

datatype error =
    ErrorWithStatus PRODUCT_MESSAGES HttpStatusCode
  | TypeError
  | BSONError
  | JsonWebTokenError JwtFailure
  | MongoServerError
  | MailError

text \<open>
  An \<^verbatim>\<open>ObjectId\<close> is represented by its 24 lower-case hexadecimal digits, which is
  what \<^verbatim>\<open>toString()\<close> prints. A string is accepted by \<^verbatim>\<open>ObjectId.isValid\<close> and by
  the constructor when it consists of 24 hexadecimal digits of either case.
\<close>

datatype ObjectId = ObjectIdHex string

definition checkForHexRegExp :: "string \<Rightarrow> bool" where
  "checkForHexRegExp s =
     (length s = 24 \<and> list_all (\<lambda>c. c \<in> set ''0123456789abcdefABCDEF'') s)"

definition ObjectId_isValid :: "string \<Rightarrow> bool" where
  "ObjectId_isValid s = checkForHexRegExp s"

definition toLowerHex :: "char \<Rightarrow> char" where
  "toLowerHex c =
     (if c = CHR ''A'' then CHR ''a'' else if c = CHR ''B'' then CHR ''b''
      else if c = CHR ''C'' then CHR ''c'' else if c = CHR ''D'' then CHR ''d''
      else if c = CHR ''E'' then CHR ''e'' else if c = CHR ''F'' then CHR ''f''
      else c)"

definition new_ObjectId :: "string \<Rightarrow> error + ObjectId" where
  "new_ObjectId s =
     (if checkForHexRegExp s then Inr (ObjectIdHex (map toLowerHex s)) else Inl BSONError)"

fun toString :: "ObjectId \<Rightarrow> string" where
  "toString (ObjectIdHex h) = h"

section \<open>The token codec\<close>

text \<open>
  The claims of a token before signing, and the decoded payload, which adds the
  issued-at and expiry instants. Verify-email tokens carry only the user id and the
  token type, so the three session claims are optional.
\<close>

record Claims =
  userId :: string
  tokenType :: TokenType
  tp_verify :: "UserVerifyStatus option"
  tp_status :: "UserStatus option"
  tp_role :: "UserRole option"

record TokenPayload = Claims +
  iat :: nat
  exp :: nat

text \<open>
  A token string keeps the key and the payload it was signed from: the compact wire
  encoding is abstracted to an injective, unforgeable one. Any other text, the empty
  string of a cleared token field included, is \<open>Plain\<close>.
\<close>

datatype tokenString = Plain string | Jwt string TokenPayload

text \<open>
  The two ways the service fixes a token's expiry: an \<^verbatim>\<open>exp\<close> claim put in the
  payload, or the \<^verbatim>\<open>expiresIn\<close> option, a duration from the instant of signing.
\<close>

datatype Expiry = PayloadExp nat | ExpiresIn nat

text \<open>
  Modelled from the spec: \<^verbatim>\<open>signToken\<close> and \<^verbatim>\<open>verifyToken\<close> of \<^verbatim>\<open>~/utils/jwt\<close>,
  which are not among the sources. The spec gives the contract
  \<^verbatim>\<open>sign(payload, secret, expiry?) -> token string\<close> and
  \<^verbatim>\<open>verify(token, secret) -> payload or Failure(InvalidSignature | Expired | Malformed)\<close>,
  and says that tokens carry the standard issued-at and expiry claims and that
  \<^verbatim>\<open>verify\<close> with the wrong secret, or after the expiry instant, fails. The first
  argument is the clock, in seconds. The signature is checked before the expiry, and a
  token is valid while the clock is before its expiry: from the instant of expiry on it
  counts as expired.
\<close>

definition signToken :: "nat \<Rightarrow> Claims \<Rightarrow> string \<Rightarrow> Expiry \<Rightarrow> tokenString" where
  "signToken clock payload privateKey expiry =
     Jwt privateKey
       \<lparr>userId = userId payload, tokenType = tokenType payload,
        tp_verify = tp_verify payload, tp_status = tp_status payload,
        tp_role = tp_role payload,
        iat = clock,
        exp = (case expiry of PayloadExp e \<Rightarrow> e | ExpiresIn d \<Rightarrow> clock + d)\<rparr>"

definition verifyToken :: "nat \<Rightarrow> tokenString \<Rightarrow> string \<Rightarrow> error + TokenPayload" where
  "verifyToken clock t secretOrPublicKey =
     (case t of
        Plain _ \<Rightarrow> Inl (JsonWebTokenError Malformed)
      | Jwt k p \<Rightarrow>
          if k \<noteq> secretOrPublicKey then Inl (JsonWebTokenError InvalidSignature)
          else if exp p \<le> clock then Inl (JsonWebTokenError Expired)
          else Inr p)"

section \<open>Documents and collections\<close>

record User =
  u_id :: ObjectId
  email :: string
  password :: string
  verifyEmailToken :: tokenString
  forgotPasswordToken :: tokenString
  verify :: UserVerifyStatus
  status :: UserStatus
  role :: UserRole
  avatar :: string
  phoneNumber :: string
  addresses :: "ObjectId list"
  createdAt :: nat
  updatedAt :: nat

record RefreshToken =
  token :: tokenString
  rt_iat :: nat
  rt_exp :: nat

record ProductCategory =
  pc_id :: ObjectId
  pc_userId :: ObjectId
  pc_name :: string
  pc_createdAt :: nat
  pc_updatedAt :: nat

text \<open>
  A stored document as the JavaScript object the driver returns: its keys with their
  values. \<^verbatim>\<open>omit\<close> of lodash drops the listed keys and keeps the rest.
\<close>

datatype json =
    JString string
  | JToken tokenString
  | JNumber nat
  | JDate nat
  | JObjectId ObjectId
  | JObjectIds "ObjectId list"
  | JVerify UserVerifyStatus

type_synonym document = "(string \<times> json) list"

definition toDocument :: "User \<Rightarrow> document" where
  "toDocument u =
     [(''_id'', JObjectId (u_id u)),
      (''email'', JString (email u)),
      (''password'', JString (password u)),
      (''verifyEmailToken'', JToken (verifyEmailToken u)),
      (''forgotPasswordToken'', JToken (forgotPasswordToken u)),
      (''verify'', JVerify (verify u)),
      (''status'', JNumber (status u)),
      (''role'', JNumber (role u)),
      (''avatar'', JString (avatar u)),
      (''phoneNumber'', JString (phoneNumber u)),
      (''addresses'', JObjectIds (addresses u)),
      (''createdAt'', JDate (createdAt u)),
      (''updatedAt'', JDate (updatedAt u))]"

definition omit :: "document \<Rightarrow> string list \<Rightarrow> document" where
  "omit object paths = filter (\<lambda>kv. fst kv \<notin> set paths) object"

definition has_key :: "document \<Rightarrow> string \<Rightarrow> bool" where
  "has_key object k = (k \<in> set (map fst object))"

text \<open>
  A collection is the list of its documents. \<^verbatim>\<open>findOne\<close> returns the first document
  that matches the filter, \<^verbatim>\<open>updateOne\<close> and \<^verbatim>\<open>deleteOne\<close> change or remove the
  first match and do nothing when there is none.
\<close>

definition findOne :: "('a \<Rightarrow> bool) \<Rightarrow> 'a list \<Rightarrow> 'a option" where
  "findOne flt docs = find flt docs"

fun updateOne :: "('a \<Rightarrow> bool) \<Rightarrow> ('a \<Rightarrow> 'a) \<Rightarrow> 'a list \<Rightarrow> 'a list" where
  "updateOne flt upd [] = []"
| "updateOne flt upd (d # docs) =
     (if flt d then upd d # docs else d # updateOne flt upd docs)"

fun deleteOne :: "('a \<Rightarrow> bool) \<Rightarrow> 'a list \<Rightarrow> 'a list" where
  "deleteOne flt [] = []"
| "deleteOne flt (d # docs) = (if flt d then docs else d # deleteOne flt docs)"

text \<open>
  \<^verbatim>\<open>findOneAndUpdate\<close> updates the first match and returns a document, or \<^verbatim>\<open>null\<close>
  when nothing matches. Which document it returns is the driver's
  \<^verbatim>\<open>returnDocument\<close> option; a call that passes no options, as every call of the
  service does, gets the driver's default, the document as it was before the update.
\<close>

datatype ReturnDocument = Before | After

definition findOneAndUpdate ::
  "('a \<Rightarrow> bool) \<Rightarrow> ('a \<Rightarrow> 'a) \<Rightarrow> ReturnDocument \<Rightarrow> 'a list \<Rightarrow> 'a option \<times> 'a list" where
  "findOneAndUpdate flt upd returnDocument docs =
     (case find flt docs of
        None \<Rightarrow> (None, docs)
      | Some d \<Rightarrow>
          (Some (case returnDocument of Before \<Rightarrow> d | After \<Rightarrow> upd d),
           updateOne flt upd docs))"

definition defaultReturnDocument :: ReturnDocument where
  "defaultReturnDocument = Before"

section \<open>Configuration, collaborators and state\<close>

text \<open>
  \<^verbatim>\<open>ENV_CONFIG\<close> (four secrets and four durations, in seconds), the hasher
  \<^verbatim>\<open>hashPassword\<close> and the mailer are not among the sources; they are parameters.
  \<open>deliverable\<close> says for which addresses the mailer succeeds. The role and the
  account status that the \<^verbatim>\<open>User\<close> constructor gives a new user are parameters too.
\<close>

record env =
  JWT_ACCESS_TOKEN_SECRET :: string
  JWT_REFRESH_TOKEN_SECRET :: string
  JWT_VERIFY_EMAIL_TOKEN_SECRET :: string
  JWT_FORGOT_PASSWORD_TOKEN_SECRET :: string
  JWT_ACCESS_TOKEN_EXPIRED_IN :: nat
  JWT_REFRESH_TOKEN_EXPIRED_IN :: nat
  JWT_VERIFY_EMAIL_TOKEN_EXPIRED_IN :: nat
  JWT_FORGOT_PASSWORD_TOKEN_EXPIRED_IN :: nat
  hashPassword :: "string \<Rightarrow> string"
  deliverable :: "string \<Rightarrow> bool"
  defaultRole :: UserRole
  defaultStatus :: UserStatus

text \<open>
  The state a call works on: the three collections of \<^verbatim>\<open>databaseService\<close> that the
  code reads and writes, the mails sent so far, and the reading of the clock during
  the call (seconds; dates are readings of the same clock).
\<close>

datatype mail = VerifyMail string tokenString | ForgotPasswordMail string tokenString

record state =
  users :: "User list"
  refreshTokens :: "RefreshToken list"
  productCategories :: "ProductCategory list"
  outbox :: "mail list"
  now :: nat

text \<open>
  \<^verbatim>\<open>insertOne\<close> on the users collection: the driver rejects a document whose
  \<^verbatim>\<open>_id\<close> is already stored. Refresh-token records get an \<^verbatim>\<open>_id\<close> of their own
  from the driver, so inserting one always succeeds.
\<close>

definition users_insertOne :: "User \<Rightarrow> state \<Rightarrow> (error + unit) \<times> state" where
  "users_insertOne u s =
     (if list_ex (\<lambda>d. u_id d = u_id u) (users s) then (Inl MongoServerError, s)
      else (Inr (), s\<lparr>users := users s @ [u]\<rparr>))"

definition refreshTokens_insertOne :: "RefreshToken \<Rightarrow> state \<Rightarrow> state" where
  "refreshTokens_insertOne r s = s\<lparr>refreshTokens := refreshTokens s @ [r]\<rparr>"

definition refreshTokens_deleteOne :: "tokenString \<Rightarrow> state \<Rightarrow> state" where
  "refreshTokens_deleteOne t s =
     s\<lparr>refreshTokens := deleteOne (\<lambda>r. token r = t) (refreshTokens s)\<rparr>"

definition sendVerifyEmail ::
  "env \<Rightarrow> string \<Rightarrow> tokenString \<Rightarrow> state \<Rightarrow> (error + unit) \<times> state" where
  "sendVerifyEmail e address t s =
     (if deliverable e address then (Inr (), s\<lparr>outbox := outbox s @ [VerifyMail address t]\<rparr>)
      else (Inl MailError, s))"

definition sendForgotPasswordEmail ::
  "env \<Rightarrow> string \<Rightarrow> tokenString \<Rightarrow> state \<Rightarrow> (error + unit) \<times> state" where
  "sendForgotPasswordEmail e address t s =
     (if deliverable e address then
        (Inr (), s\<lparr>outbox := outbox s @ [ForgotPasswordMail address t]\<rparr>)
      else (Inl MailError, s))"

text \<open>
  Modelled from the spec: the constructor of \<^verbatim>\<open>User.schema\<close>, which is not among
  the sources. The spec says that registration creates the user unverified and that
  the single-use token fields are plain fields, cleared when consumed; the dates
  follow the constructors of the sibling schemas \<^verbatim>\<open>Brand\<close> and
  \<^verbatim>\<open>ProductCategory\<close>, which default both to the instant of construction.
\<close>

definition new_User ::
  "env \<Rightarrow> nat \<Rightarrow> ObjectId \<Rightarrow> string \<Rightarrow> string \<Rightarrow> tokenString \<Rightarrow> User" where
  "new_User e date uid mail pw vtoken =
     \<lparr>u_id = uid, email = mail, password = pw,
      verifyEmailToken = vtoken, forgotPasswordToken = Plain [],
      verify = Unverified, status = defaultStatus e, role = defaultRole e,
      avatar = [], phoneNumber = [], addresses = [],
      createdAt = date, updatedAt = date\<rparr>"

section \<open>The session issuance service\<close>

text \<open>The argument type \<^verbatim>\<open>SignToken\<close>; \<open>st_exp\<close> is the optional \<^verbatim>\<open>exp\<close>.\<close>

record SignToken =
  st_userId :: string
  st_verify :: UserVerifyStatus
  st_role :: UserRole
  st_status :: UserStatus
  st_exp :: "nat option"

definition signAccessToken :: "env \<Rightarrow> nat \<Rightarrow> SignToken \<Rightarrow> tokenString" where
  "signAccessToken e clock a =
     signToken clock
       \<lparr>userId = st_userId a, tokenType = Access, tp_verify = Some (st_verify a),
        tp_status = Some (st_status a), tp_role = Some (st_role a)\<rparr>
       (JWT_ACCESS_TOKEN_SECRET e) (ExpiresIn (JWT_ACCESS_TOKEN_EXPIRED_IN e))"

text \<open>
  \<^verbatim>\<open>if (exp)\<close> tests a number for truth: an absent \<^verbatim>\<open>exp\<close> and the number 0 both
  take the second branch, which signs with the configured duration.
\<close>

definition signRefreshToken :: "env \<Rightarrow> nat \<Rightarrow> SignToken \<Rightarrow> tokenString" where
  "signRefreshToken e clock a =
     (let payload =
        \<lparr>userId = st_userId a, tokenType = Refresh, tp_verify = Some (st_verify a),
         tp_status = Some (st_status a), tp_role = Some (st_role a)\<rparr>
      in case st_exp a of
           Some x \<Rightarrow>
             if x \<noteq> 0 then signToken clock payload (JWT_REFRESH_TOKEN_SECRET e) (PayloadExp x)
             else signToken clock payload (JWT_REFRESH_TOKEN_SECRET e)
                    (ExpiresIn (JWT_REFRESH_TOKEN_EXPIRED_IN e))
         | None \<Rightarrow>
             signToken clock payload (JWT_REFRESH_TOKEN_SECRET e)
               (ExpiresIn (JWT_REFRESH_TOKEN_EXPIRED_IN e)))"

definition signVerifyEmailToken :: "env \<Rightarrow> nat \<Rightarrow> string \<Rightarrow> tokenString" where
  "signVerifyEmailToken e clock uid =
     signToken clock
       \<lparr>userId = uid, tokenType = VerifyEmail, tp_verify = None, tp_status = None,
        tp_role = None\<rparr>
       (JWT_VERIFY_EMAIL_TOKEN_SECRET e) (ExpiresIn (JWT_VERIFY_EMAIL_TOKEN_EXPIRED_IN e))"

definition signForgotPasswordToken :: "env \<Rightarrow> nat \<Rightarrow> string \<Rightarrow> tokenString" where
  "signForgotPasswordToken e clock uid =
     signToken clock
       \<lparr>userId = uid, tokenType = ForgotPassword, tp_verify = None, tp_status = None,
        tp_role = None\<rparr>
       (JWT_FORGOT_PASSWORD_TOKEN_SECRET e)
       (ExpiresIn (JWT_FORGOT_PASSWORD_TOKEN_EXPIRED_IN e))"

definition signAccessAndRefreshToken ::
  "env \<Rightarrow> nat \<Rightarrow> SignToken \<Rightarrow> tokenString \<times> tokenString" where
  "signAccessAndRefreshToken e clock a =
     (signAccessToken e clock (a\<lparr>st_exp := None\<rparr>), signRefreshToken e clock a)"

definition decodeRefreshToken :: "env \<Rightarrow> nat \<Rightarrow> tokenString \<Rightarrow> error + TokenPayload" where
  "decodeRefreshToken e clock t = verifyToken clock t (JWT_REFRESH_TOKEN_SECRET e)"

text \<open>The key list that \<^verbatim>\<open>register\<close>, \<^verbatim>\<open>verifyEmail\<close> and \<^verbatim>\<open>resetPassword\<close> pass to \<^verbatim>\<open>omit\<close>.\<close>

definition omittedKeys :: "string list" where
  "omittedKeys =
     [''password'', ''avatar'', ''phoneNumber'', ''verifyEmailToken'',
      ''forgotPasswordToken'', ''addresses'', ''status'', ''role'', ''verify'']"

record Tokens =
  res_accessToken :: tokenString
  res_refreshToken :: tokenString

record AuthResult = Tokens +
  res_user :: document

record RegisterReqBody =
  req_email :: string
  req_password :: string

text \<open>
  Every operation takes the state and returns what the caller gets, a value or the
  error thrown, together with the state it leaves: a write made before a later step
  throws stays made. The two members of a \<^verbatim>\<open>Promise.all\<close> are both started, so both
  take effect; the call fails when one of them does.

  \<^verbatim>\<open>register\<close>: \<open>uid\<close> is the identifier that \<^verbatim>\<open>new ObjectId()\<close> generates.
\<close>

definition register ::
  "env \<Rightarrow> ObjectId \<Rightarrow> RegisterReqBody \<Rightarrow> state \<Rightarrow> (error + AuthResult) \<times> state" where
  "register e uid body s =
     (let verifyEmailToken = signVerifyEmailToken e (now s) (toString uid);
          (sent, s1) = sendVerifyEmail e (req_email body) verifyEmailToken s;
          (inserted, s2) =
            users_insertOne
              (new_User e (now s) uid (req_email body)
                 (hashPassword e (req_password body)) verifyEmailToken) s1
      in case sent of
           Inl err \<Rightarrow> (Inl err, s2)
         | Inr _ \<Rightarrow>
            (case inserted of
               Inl err \<Rightarrow> (Inl err, s2)
             | Inr _ \<Rightarrow>
                (case findOne (\<lambda>u. u_id u = uid) (users s2) of
                   None \<Rightarrow> (Inl TypeError, s2)
                 | Some user \<Rightarrow>
                    (let (accessToken, refreshToken) =
                           signAccessAndRefreshToken e (now s)
                             \<lparr>st_userId = toString (u_id user), st_verify = verify user,
                              st_role = role user, st_status = status user, st_exp = None\<rparr>
                     in case decodeRefreshToken e (now s) refreshToken of
                          Inl err \<Rightarrow> (Inl err, s2)
                        | Inr p \<Rightarrow>
                           (Inr \<lparr>res_accessToken = accessToken,
                                 res_refreshToken = refreshToken,
                                 res_user = omit (toDocument user) omittedKeys\<rparr>,
                            refreshTokens_insertOne
                              \<lparr>token = refreshToken, rt_iat = iat p, rt_exp = exp p\<rparr> s2)))))"

definition login :: "env \<Rightarrow> User \<Rightarrow> state \<Rightarrow> (error + Tokens) \<times> state" where
  "login e user s =
     (let (accessToken, refreshToken) =
            signAccessAndRefreshToken e (now s)
              \<lparr>st_userId = toString (u_id user), st_verify = verify user,
               st_role = role user, st_status = status user, st_exp = None\<rparr>
      in case decodeRefreshToken e (now s) refreshToken of
           Inl err \<Rightarrow> (Inl err, s)
         | Inr p \<Rightarrow>
            (Inr \<lparr>res_accessToken = accessToken, res_refreshToken = refreshToken\<rparr>,
             refreshTokens_insertOne
               \<lparr>token = refreshToken, rt_iat = iat p, rt_exp = exp p\<rparr> s))"

text \<open>
  \<^verbatim>\<open>resendEmailVerify\<close> reads \<^verbatim>\<open>(user as WithId<User>).email\<close> while it builds the
  argument list of the second \<^verbatim>\<open>Promise.all\<close>: with no user found this throws before
  the mail and the update are started.
\<close>

definition resendEmailVerify :: "env \<Rightarrow> string \<Rightarrow> state \<Rightarrow> (error + bool) \<times> state" where
  "resendEmailVerify e uid s =
     (let verifyEmailToken = signVerifyEmailToken e (now s) uid
      in case new_ObjectId uid of
           Inl err \<Rightarrow> (Inl err, s)
         | Inr oid \<Rightarrow>
            (case findOne (\<lambda>u. u_id u = oid) (users s) of
               None \<Rightarrow> (Inl TypeError, s)
             | Some user \<Rightarrow>
                (let (sent, s1) = sendVerifyEmail e (email user) verifyEmailToken s;
                     s2 = s1\<lparr>users :=
                            updateOne (\<lambda>u. u_id u = oid)
                              (\<lambda>u. u\<lparr>verifyEmailToken := verifyEmailToken,
                                     updatedAt := now s\<rparr>)
                              (users s1)\<rparr>
                 in case sent of
                      Inl err \<Rightarrow> (Inl err, s2)
                    | Inr _ \<Rightarrow> (Inr True, s2))))"

text \<open>
  \<^verbatim>\<open>verifyEmail\<close> and \<^verbatim>\<open>resetPassword\<close> destructure what \<^verbatim>\<open>findOneAndUpdate\<close>
  returned; destructuring \<^verbatim>\<open>null\<close> throws a \<^verbatim>\<open>TypeError\<close>.
\<close>

definition verifyEmail :: "env \<Rightarrow> string \<Rightarrow> state \<Rightarrow> (error + AuthResult) \<times> state" where
  "verifyEmail e uid s =
     (case new_ObjectId uid of
        Inl err \<Rightarrow> (Inl err, s)
      | Inr oid \<Rightarrow>
         (let (found, docs) =
                findOneAndUpdate (\<lambda>u. u_id u = oid)
                  (\<lambda>u. u\<lparr>verifyEmailToken := Plain [], verify := Verified,
                         updatedAt := now s\<rparr>)
                  defaultReturnDocument (users s);
              s1 = s\<lparr>users := docs\<rparr>
          in case found of
               None \<Rightarrow> (Inl TypeError, s1)
             | Some user \<Rightarrow>
                (let (accessToken, refreshToken) =
                       signAccessAndRefreshToken e (now s)
                         \<lparr>st_userId = toString (u_id user), st_verify = verify user,
                          st_role = role user, st_status = status user, st_exp = None\<rparr>
                 in (Inr \<lparr>res_accessToken = accessToken, res_refreshToken = refreshToken,
                          res_user = omit (toDocument user) omittedKeys\<rparr>, s1))))"

definition logout :: "tokenString \<Rightarrow> state \<Rightarrow> (error + bool) \<times> state" where
  "logout refreshToken s = (Inr True, refreshTokens_deleteOne refreshToken s)"

record RefreshTokenArgs =
  rf_refreshToken :: tokenString
  rf_userId :: string
  rf_verify :: UserVerifyStatus
  rf_status :: UserStatus
  rf_role :: UserRole
  refreshTokenExp :: nat

definition refreshToken :: "env \<Rightarrow> RefreshTokenArgs \<Rightarrow> state \<Rightarrow> (error + Tokens) \<times> state" where
  "refreshToken e a s =
     (let (newAccessToken, newRefreshToken) =
            signAccessAndRefreshToken e (now s)
              \<lparr>st_userId = rf_userId a, st_verify = rf_verify a, st_role = rf_role a,
               st_status = rf_status a, st_exp = Some (refreshTokenExp a)\<rparr>;
          s1 = refreshTokens_deleteOne (rf_refreshToken a) s
      in case decodeRefreshToken e (now s) newRefreshToken of
           Inl err \<Rightarrow> (Inl err, s1)
         | Inr p \<Rightarrow>
            (Inr \<lparr>res_accessToken = newAccessToken, res_refreshToken = newRefreshToken\<rparr>,
             refreshTokens_insertOne
               \<lparr>token = newRefreshToken, rt_iat = iat p, rt_exp = exp p\<rparr> s1))"

text \<open>
  \<^verbatim>\<open>forgotPassword\<close> starts the mail before \<^verbatim>\<open>new ObjectId(userId)\<close> is evaluated
  for the update's filter.
\<close>

record ForgotPasswordArgs =
  fp_userId :: string
  fp_email :: string

definition forgotPassword ::
  "env \<Rightarrow> ForgotPasswordArgs \<Rightarrow> state \<Rightarrow> (error + unit) \<times> state" where
  "forgotPassword e a s =
     (let forgotPasswordToken = signForgotPasswordToken e (now s) (fp_userId a);
          (sent, s1) = sendForgotPasswordEmail e (fp_email a) forgotPasswordToken s
      in case new_ObjectId (fp_userId a) of
           Inl err \<Rightarrow> (Inl err, s1)
         | Inr oid \<Rightarrow>
            (let s2 = s1\<lparr>users :=
                        updateOne (\<lambda>u. u_id u = oid)
                          (\<lambda>u. u\<lparr>forgotPasswordToken := forgotPasswordToken,
                                 updatedAt := now s\<rparr>)
                          (users s1)\<rparr>
             in case sent of
                  Inl err \<Rightarrow> (Inl err, s2)
                | Inr _ \<Rightarrow> (Inr (), s2)))"

record ResetPasswordArgs =
  rp_password :: string
  rp_userId :: string

definition resetPassword ::
  "env \<Rightarrow> ResetPasswordArgs \<Rightarrow> state \<Rightarrow> (error + AuthResult) \<times> state" where
  "resetPassword e a s =
     (case new_ObjectId (rp_userId a) of
        Inl err \<Rightarrow> (Inl err, s)
      | Inr oid \<Rightarrow>
         (let (found, docs) =
                findOneAndUpdate (\<lambda>u. u_id u = oid)
                  (\<lambda>u. u\<lparr>password := hashPassword e (rp_password a),
                         forgotPasswordToken := Plain [], createdAt := now s\<rparr>)
                  defaultReturnDocument (users s);
              s1 = s\<lparr>users := docs\<rparr>
          in case found of
               None \<Rightarrow> (Inl TypeError, s1)
             | Some user \<Rightarrow>
                (let (accessToken, refreshToken) =
                       signAccessAndRefreshToken e (now s)
                         \<lparr>st_userId = toString (u_id user), st_verify = verify user,
                          st_role = role user, st_status = status user, st_exp = None\<rparr>
                 in (Inr \<lparr>res_accessToken = accessToken, res_refreshToken = refreshToken,
                          res_user = omit (toDocument user) omittedKeys\<rparr>, s1))))"

section \<open>The login controller\<close>

text \<open>
  The request as the controller reads it: \<^verbatim>\<open>req.user\<close>, which a middleware in front
  of the controller sets, may be absent. The response is the \<^verbatim>\<open>{message, data}\<close>
  envelope given to \<^verbatim>\<open>res.json\<close>; \<open>data\<close> spreads the service's result and adds
  \<^verbatim>\<open>user\<close> as it stands in the request.
\<close>

datatype USER_MESSAGES = REGISTER_SUCCESS | LOGIN_SUCCESS

record Request =
  req_user :: "User option"

record Response =
  message :: USER_MESSAGES
  data :: AuthResult

definition loginController :: "env \<Rightarrow> Request \<Rightarrow> state \<Rightarrow> (error + Response) \<times> state" where
  "loginController e req s =
     (case req_user req of
        None \<Rightarrow> (Inl TypeError, s)
      | Some user \<Rightarrow>
         (case login e user s of
            (Inl err, s') \<Rightarrow> (Inl err, s')
          | (Inr result, s') \<Rightarrow>
             (Inr \<lparr>message = LOGIN_SUCCESS,
                   data = \<lparr>res_accessToken = res_accessToken result,
                           res_refreshToken = res_refreshToken result,
                           res_user = toDocument user\<rparr>\<rparr>, s')))"

section \<open>The product category validator\<close>

text \<open>
  The path parameter is a JavaScript string, the list of its UTF-16 code units. The
  sanitizer \<^verbatim>\<open>trim: true\<close>, which names no character set, removes at both ends every
  character that the regular expression \<^verbatim>\<open>\s\<close> matches: the ASCII white space, U+00A0,
  U+1680, U+2000 to U+200A, U+2028, U+2029, U+202F, U+205F, U+3000 and U+FEFF.
\<close>

definition isSpace :: "nat \<Rightarrow> bool" where
  "isSpace u =
     (u \<in> set [0x09, 0x0A, 0x0B, 0x0C, 0x0D, 0x20, 0xA0, 0x1680, 0x2028, 0x2029, 0x202F,
               0x205F, 0x3000, 0xFEFF]
      \<or> (0x2000 \<le> u \<and> u \<le> 0x200A))"

definition trim :: "nat list \<Rightarrow> nat list" where
  "trim s = rev (dropWhile isSpace (rev (dropWhile isSpace s)))"

text \<open>
  The strings of the identifiers hold one character up to U+00FF per \<open>char\<close>. A
  JavaScript string with a code unit beyond that is no such string; it has a character
  that is not a hexadecimal digit, so \<^verbatim>\<open>ObjectId.isValid\<close> refuses it and the
  constructor throws.
\<close>

definition toCodeUnits :: "string \<Rightarrow> nat list" where
  "toCodeUnits str = map of_char str"

definition fromCodeUnits :: "nat list \<Rightarrow> string option" where
  "fromCodeUnits us = (if list_all (\<lambda>u. u < 256) us then Some (map char_of us) else None)"

definition ObjectId_isValid_value :: "nat list \<Rightarrow> bool" where
  "ObjectId_isValid_value v =
     (case fromCodeUnits v of None \<Rightarrow> False | Some str \<Rightarrow> ObjectId_isValid str)"

definition new_ObjectId_value :: "nat list \<Rightarrow> error + ObjectId" where
  "new_ObjectId_value v =
     (case fromCodeUnits v of None \<Rightarrow> Inl BSONError | Some str \<Rightarrow> new_ObjectId str)"

text \<open>
  The custom validator runs on the trimmed value. What it throws is the rejection;
  \<^verbatim>\<open>validate\<close>, which hands it to the error handler, is not among the sources.
\<close>

definition productCategoryId_custom :: "nat list \<Rightarrow> state \<Rightarrow> error + bool" where
  "productCategoryId_custom v s =
     (if v = [] then Inl (ErrorWithStatus PRODUCT_CATEGORY_ID_IS_REQUIRED BadRequest)
      else if \<not> ObjectId_isValid_value v then
        Inl (ErrorWithStatus PRODUCT_CATEGORY_ID_IS_INVALID BadRequest)
      else
        (case new_ObjectId_value v of
           Inl err \<Rightarrow> Inl err
         | Inr oid \<Rightarrow>
            (case findOne (\<lambda>c. pc_id c = oid) (productCategories s) of
               None \<Rightarrow> Inl (ErrorWithStatus PRODUCT_CATEGORY_NOT_FOUND NotFound)
             | Some productCategory \<Rightarrow> Inr True)))"

definition productCategoryIdValidator :: "nat list \<Rightarrow> state \<Rightarrow> error + bool" where
  "productCategoryIdValidator param s = productCategoryId_custom (trim param) s"

section \<open>What a caller decodes from a result\<close>

text \<open>
  The payloads that the two tokens of a result decode to under the access and the
  refresh secret, and the expiry that the refresh token of an outcome decodes to, when
  the call returned one and it decodes.
\<close>

definition accessPayload :: "env \<Rightarrow> nat \<Rightarrow> 'a Tokens_scheme \<Rightarrow> error + TokenPayload" where
  "accessPayload e clock r = verifyToken clock (res_accessToken r) (JWT_ACCESS_TOKEN_SECRET e)"

definition refreshPayload :: "env \<Rightarrow> nat \<Rightarrow> 'a Tokens_scheme \<Rightarrow> error + TokenPayload" where
  "refreshPayload e clock r = decodeRefreshToken e clock (res_refreshToken r)"

definition newRefreshExpiry :: "env \<Rightarrow> nat \<Rightarrow> error + Tokens \<Rightarrow> nat option" where
  "newRefreshExpiry e clock outcome =
     (case outcome of
        Inl err \<Rightarrow> None
      | Inr r \<Rightarrow>
         (case refreshPayload e clock r of Inl err \<Rightarrow> None | Inr p \<Rightarrow> Some (exp p)))"

section \<open>A concrete scenario\<close>

text \<open>
  One configuration and one state, used to run the operations on: the user Alice,
  registered at 900 and not yet verified, her session's refresh token, one product
  category, and the clock at 1000.
\<close>

definition exampleEnv :: env where
  "exampleEnv =
     \<lparr>JWT_ACCESS_TOKEN_SECRET = ''access'', JWT_REFRESH_TOKEN_SECRET = ''refresh'',
      JWT_VERIFY_EMAIL_TOKEN_SECRET = ''verify'',
      JWT_FORGOT_PASSWORD_TOKEN_SECRET = ''forgot'',
      JWT_ACCESS_TOKEN_EXPIRED_IN = 900, JWT_REFRESH_TOKEN_EXPIRED_IN = 86400,
      JWT_VERIFY_EMAIL_TOKEN_EXPIRED_IN = 3600,
      JWT_FORGOT_PASSWORD_TOKEN_EXPIRED_IN = 3600,
      hashPassword = (\<lambda>p. CHR ''#'' # p), deliverable = (\<lambda>address. True),
      defaultRole = 1, defaultStatus = 0\<rparr>"

definition aliceId :: string where
  "aliceId = ''65a1b2c3d4e5f60718293a4b''"

definition bobId :: ObjectId where
  "bobId = ObjectIdHex ''65a1b2c3d4e5f60718293a4c''"

definition shoesId :: string where
  "shoesId = ''65a1b2c3d4e5f60718293a4d''"

definition alice :: User where
  "alice =
     \<lparr>u_id = ObjectIdHex aliceId, email = ''a@x.com'', password = ''#secret'',
      verifyEmailToken = signVerifyEmailToken exampleEnv 900 aliceId,
      forgotPasswordToken = signForgotPasswordToken exampleEnv 950 aliceId,
      verify = Unverified, status = 0, role = 1, avatar = [], phoneNumber = [],
      addresses = [], createdAt = 900, updatedAt = 900\<rparr>"

definition aliceRefreshToken :: tokenString where
  "aliceRefreshToken =
     signRefreshToken exampleEnv 900
       \<lparr>st_userId = aliceId, st_verify = Unverified, st_role = 1, st_status = 0,
        st_exp = None\<rparr>"

definition shoes :: ProductCategory where
  "shoes =
     \<lparr>pc_id = ObjectIdHex shoesId, pc_userId = ObjectIdHex aliceId, pc_name = ''shoes'',
      pc_createdAt = 950, pc_updatedAt = 950\<rparr>"

definition exampleState :: state where
  "exampleState =
     \<lparr>users = [alice],
      refreshTokens = [\<lparr>token = aliceRefreshToken, rt_iat = 900, rt_exp = 87300\<rparr>],
      productCategories = [shoes], outbox = [], now = 1000\<rparr>"

definition rotation :: "nat \<Rightarrow> RefreshTokenArgs" where
  "rotation x =
     \<lparr>rf_refreshToken = aliceRefreshToken, rf_userId = aliceId, rf_verify = Unverified,
      rf_status = 0, rf_role = 1, refreshTokenExp = x\<rparr>"

definition bobBody :: RegisterReqBody where
  "bobBody = \<lparr>req_email = ''b@x.com'', req_password = ''secret''\<rparr>"

section \<open>Collections and the codec: basic facts\<close>

lemma find_append_fresh:
  "\<not> list_ex P xs \<Longrightarrow> P x \<Longrightarrow> find P (xs @ [x]) = Some x"
  by (induction xs) auto

lemma find_updateOne:
  "find P xs = Some x \<Longrightarrow> P (f x) \<Longrightarrow> find P (updateOne P f xs) = Some (f x)"
  by (induction xs) (auto split: if_splits)

lemma length_updateOne: "length (updateOne P f xs) = length xs"
  by (induction xs) auto

lemma filter_updateOne:
  "(\<And>x. P x \<Longrightarrow> P (f x)) \<Longrightarrow> filter (\<lambda>x. \<not> P x) (updateOne P f xs) = filter (\<lambda>x. \<not> P x) xs"
  by (induction xs) auto

lemma find_deleteOne:
  "length (filter P xs) \<le> 1 \<Longrightarrow> find P (deleteOne P xs) = None"
  by (induction xs) (auto simp: find_None_iff filter_empty_conv split: if_splits)

lemma verifyToken_signToken:
  "verifyToken clock (signToken clock c k x) k =
     (if (case x of PayloadExp v \<Rightarrow> v | ExpiresIn d \<Rightarrow> clock + d) \<le> clock
      then Inl (JsonWebTokenError Expired)
      else Inr \<lparr>userId = userId c, tokenType = tokenType c, tp_verify = tp_verify c,
                tp_status = tp_status c, tp_role = tp_role c, iat = clock,
                exp = (case x of PayloadExp v \<Rightarrow> v | ExpiresIn d \<Rightarrow> clock + d)\<rparr>)"
  by (simp add: verifyToken_def signToken_def)

lemma login_result:
  "login e user s =
     (let a = \<lparr>st_userId = toString (u_id user), st_verify = verify user,
               st_role = role user, st_status = status user, st_exp = None\<rparr>
      in if JWT_REFRESH_TOKEN_EXPIRED_IN e = 0 then (Inl (JsonWebTokenError Expired), s)
         else (Inr \<lparr>res_accessToken = signAccessToken e (now s) a,
                    res_refreshToken = signRefreshToken e (now s) a\<rparr>,
               s\<lparr>refreshTokens := refreshTokens s @
                   [\<lparr>token = signRefreshToken e (now s) a, rt_iat = now s,
                     rt_exp = now s + JWT_REFRESH_TOKEN_EXPIRED_IN e\<rparr>]\<rparr>))"
  by (simp add: login_def Let_def signAccessAndRefreshToken_def decodeRefreshToken_def
      signRefreshToken_def signAccessToken_def verifyToken_signToken refreshTokens_insertOne_def)

lemma refreshToken_live:
  assumes "now s < refreshTokenExp a"
  shows "refreshToken e a s =
     (let g = \<lparr>st_userId = rf_userId a, st_verify = rf_verify a, st_role = rf_role a,
               st_status = rf_status a, st_exp = Some (refreshTokenExp a)\<rparr>
      in (Inr \<lparr>res_accessToken = signAccessToken e (now s) (g\<lparr>st_exp := None\<rparr>),
               res_refreshToken = signRefreshToken e (now s) g\<rparr>,
          s\<lparr>refreshTokens := deleteOne (\<lambda>r. token r = rf_refreshToken a) (refreshTokens s) @
              [\<lparr>token = signRefreshToken e (now s) g, rt_iat = now s,
                rt_exp = refreshTokenExp a\<rparr>]\<rparr>))"
  using assms
  by (simp add: refreshToken_def Let_def signAccessAndRefreshToken_def decodeRefreshToken_def
      signRefreshToken_def verifyToken_signToken refreshTokens_insertOne_def
      refreshTokens_deleteOne_def)

lemma refreshToken_lapsed:
  assumes "refreshTokenExp a \<noteq> 0" and "refreshTokenExp a \<le> now s"
  shows "refreshToken e a s =
     (Inl (JsonWebTokenError Expired),
      s\<lparr>refreshTokens := deleteOne (\<lambda>r. token r = rf_refreshToken a) (refreshTokens s)\<rparr>)"
  using assms
  by (simp add: refreshToken_def Let_def signAccessAndRefreshToken_def decodeRefreshToken_def
      signRefreshToken_def verifyToken_signToken refreshTokens_insertOne_def
      refreshTokens_deleteOne_def)

lemma verifyEmail_present:
  assumes "new_ObjectId uid = Inr oid" and "find (\<lambda>u. u_id u = oid) (users s) = Some u"
  shows "verifyEmail e uid s =
     (let a = \<lparr>st_userId = toString (u_id u), st_verify = verify u, st_role = role u,
               st_status = status u, st_exp = None\<rparr>
      in (Inr \<lparr>res_accessToken = signAccessToken e (now s) a,
               res_refreshToken = signRefreshToken e (now s) a,
               res_user = omit (toDocument u) omittedKeys\<rparr>,
          s\<lparr>users := updateOne (\<lambda>u. u_id u = oid)
                (\<lambda>u. u\<lparr>verifyEmailToken := Plain [], verify := Verified, updatedAt := now s\<rparr>)
                (users s)\<rparr>))"
  using assms
  by (simp add: verifyEmail_def Let_def findOneAndUpdate_def defaultReturnDocument_def
      signAccessAndRefreshToken_def)

lemma resetPassword_present:
  assumes "new_ObjectId (rp_userId a) = Inr oid"
      and "find (\<lambda>u. u_id u = oid) (users s) = Some u"
  shows "resetPassword e a s =
     (let g = \<lparr>st_userId = toString (u_id u), st_verify = verify u, st_role = role u,
               st_status = status u, st_exp = None\<rparr>
      in (Inr \<lparr>res_accessToken = signAccessToken e (now s) g,
               res_refreshToken = signRefreshToken e (now s) g,
               res_user = omit (toDocument u) omittedKeys\<rparr>,
          s\<lparr>users := updateOne (\<lambda>u. u_id u = oid)
                (\<lambda>u. u\<lparr>password := hashPassword e (rp_password a),
                       forgotPasswordToken := Plain [], createdAt := now s\<rparr>)
                (users s)\<rparr>))"
  using assms
  by (simp add: resetPassword_def Let_def findOneAndUpdate_def defaultReturnDocument_def
      signAccessAndRefreshToken_def)

lemma omit_keys: "has_key (omit d ks) k = (has_key d k \<and> k \<notin> set ks)"
  by (auto simp: has_key_def omit_def)


lemma register_success:
  assumes fresh: "\<not> list_ex (\<lambda>d. u_id d = uid) (users s)"
      and mail: "deliverable e (req_email body)"
      and dur: "0 < JWT_REFRESH_TOKEN_EXPIRED_IN e"
  shows "register e uid body s =
     (let u = new_User e (now s) uid (req_email body) (hashPassword e (req_password body))
                (signVerifyEmailToken e (now s) (toString uid));
          a = \<lparr>st_userId = toString uid, st_verify = Unverified, st_role = defaultRole e,
               st_status = defaultStatus e, st_exp = None\<rparr>
      in (Inr \<lparr>res_accessToken = signAccessToken e (now s) a,
               res_refreshToken = signRefreshToken e (now s) a,
               res_user = omit (toDocument u) omittedKeys\<rparr>,
          s\<lparr>users := users s @ [u],
            refreshTokens := refreshTokens s @
              [\<lparr>token = signRefreshToken e (now s) a, rt_iat = now s,
                rt_exp = now s + JWT_REFRESH_TOKEN_EXPIRED_IN e\<rparr>],
            outbox := outbox s @
              [VerifyMail (req_email body) (signVerifyEmailToken e (now s) (toString uid))]\<rparr>))"
  using assms
  by (simp add: register_def Let_def sendVerifyEmail_def users_insertOne_def findOne_def
      find_append_fresh new_User_def signAccessAndRefreshToken_def decodeRefreshToken_def
      signRefreshToken_def verifyToken_signToken refreshTokens_insertOne_def)

section \<open>Registration\<close>

text \<open>
  Claim C5. For every email and password, the fresh ones included, \<^verbatim>\<open>register\<close> with
  a newly generated identifier, a mailer that delivers and positive token durations
  succeeds. It appends exactly one user, whose verification status is \<open>Unverified\<close>,
  and exactly one refresh-token record, the one of the refresh token it returns; the
  role, account status and verification status that both returned tokens decode to are
  those of the stored user.
\<close>

theorem register_creates_user_and_session:
  assumes "\<not> list_ex (\<lambda>d. u_id d = uid) (users s)"
      and "deliverable e (req_email body)"
      and "0 < JWT_ACCESS_TOKEN_EXPIRED_IN e"
      and "0 < JWT_REFRESH_TOKEN_EXPIRED_IN e"
  shows "\<exists>r u pa pr.
           fst (register e uid body s) = Inr r \<and>
           users (snd (register e uid body s)) = users s @ [u] \<and>
           u_id u = uid \<and> email u = req_email body \<and> verify u = Unverified \<and>
           refreshTokens (snd (register e uid body s)) =
             refreshTokens s @ [\<lparr>token = res_refreshToken r, rt_iat = iat pr, rt_exp = exp pr\<rparr>] \<and>
           accessPayload e (now s) r = Inr pa \<and>
           refreshPayload e (now s) r = Inr pr \<and>
           tp_role pa = Some (role u) \<and> tp_status pa = Some (status u) \<and>
           tp_verify pa = Some (verify u) \<and>
           tp_role pr = Some (role u) \<and> tp_status pr = Some (status u) \<and>
           tp_verify pr = Some (verify u)"
  using assms
  by (simp add: register_success Let_def accessPayload_def refreshPayload_def
      decodeRefreshToken_def signAccessToken_def signRefreshToken_def verifyToken_signToken
      new_User_def)

text \<open>
  Registering Bob in the scenario: every premise holds there, and so does the conclusion.
\<close>

theorem register_creates_user_and_session_witness:
  "\<not> list_ex (\<lambda>d. u_id d = bobId) (users exampleState) \<and>
   deliverable exampleEnv (req_email bobBody) \<and>
   0 < JWT_ACCESS_TOKEN_EXPIRED_IN exampleEnv \<and>
   0 < JWT_REFRESH_TOKEN_EXPIRED_IN exampleEnv \<and>
   (\<exists>r u pa pr.
      fst (register exampleEnv bobId bobBody exampleState) = Inr r \<and>
      users (snd (register exampleEnv bobId bobBody exampleState)) = [alice, u] \<and>
      verify u = Unverified \<and>
      refreshTokens (snd (register exampleEnv bobId bobBody exampleState)) =
        refreshTokens exampleState @
          [\<lparr>token = res_refreshToken r, rt_iat = iat pr, rt_exp = exp pr\<rparr>] \<and>
      accessPayload exampleEnv 1000 r = Inr pa \<and>
      refreshPayload exampleEnv 1000 r = Inr pr \<and>
      tp_role pa = Some (role u) \<and> tp_status pr = Some (status u))"
proof -
  have h1: "\<not> list_ex (\<lambda>d. u_id d = bobId) (users exampleState)"
    by (simp add: exampleState_def alice_def bobId_def aliceId_def)
  have h2: "deliverable exampleEnv (req_email bobBody)"
    by (simp add: exampleEnv_def)
  have h3: "0 < JWT_ACCESS_TOKEN_EXPIRED_IN exampleEnv"
    by (simp add: exampleEnv_def)
  have h4: "0 < JWT_REFRESH_TOKEN_EXPIRED_IN exampleEnv"
    by (simp add: exampleEnv_def)
  have "users exampleState = [alice]" "now exampleState = 1000"
    by (simp_all add: exampleState_def)
  with register_creates_user_and_session [OF h1 h2 h3 h4] h1 h2 h3 h4
  show ?thesis by auto
qed


section \<open>The scenario's facts\<close>

lemma new_ObjectId_aliceId: "new_ObjectId aliceId = Inr (ObjectIdHex aliceId)"
  by (simp add: new_ObjectId_def checkForHexRegExp_def aliceId_def toLowerHex_def)

lemma alice_present:
  "find (\<lambda>u. u_id u = ObjectIdHex aliceId) (users exampleState) = Some alice"
  by (simp add: exampleState_def alice_def)

lemma register_bob_succeeds: "\<not> isl (fst (register exampleEnv bobId bobBody exampleState))"
proof -
  have "\<not> list_ex (\<lambda>d. u_id d = bobId) (users exampleState)"
    by (simp add: exampleState_def alice_def bobId_def aliceId_def)
  moreover have "deliverable exampleEnv (req_email bobBody)"
    and "0 < JWT_REFRESH_TOKEN_EXPIRED_IN exampleEnv"
    by (simp_all add: exampleEnv_def)
  ultimately show ?thesis
    by (simp add: register_success Let_def)
qed

section \<open>Email verification\<close>

text \<open>
  Claim C1. \<^verbatim>\<open>verifyEmail\<close> run for Alice, who is stored unverified: the stored
  verify-email token is cleared and the stored status becomes \<open>Verified\<close>, but both
  returned tokens decode to the status \<open>Unverified\<close>. The claims are signed from the
  document that \<^verbatim>\<open>findOneAndUpdate\<close> returns, which is the one before the update.
\<close>

theorem verifyEmail_signs_status_before_update:
  "case verifyEmail exampleEnv aliceId exampleState of
     (Inl err, s') \<Rightarrow> False
   | (Inr r, s') \<Rightarrow>
       map verify (users exampleState) = [Unverified] \<and>
       map verify (users s') = [Verified] \<and>
       map verifyEmailToken (users s') = [Plain []] \<and>
       map_sum id tp_verify (accessPayload exampleEnv 1000 r) = Inr (Some Unverified) \<and>
       map_sum id tp_verify (refreshPayload exampleEnv 1000 r) = Inr (Some Unverified)"
  unfolding verifyEmail_present [OF new_ObjectId_aliceId alice_present, of exampleEnv]
  by (simp add: Let_def accessPayload_def refreshPayload_def decodeRefreshToken_def
      signAccessToken_def signRefreshToken_def verifyToken_signToken exampleState_def
      alice_def exampleEnv_def)

section \<open>Rotation and logout\<close>

text \<open>
  Claim C2. For every rotation call of a token that has not expired, that is, whose
  \<^verbatim>\<open>refreshTokenExp\<close>, the expiry of the token being replaced, is later than the clock,
  the call succeeds, the new refresh token decodes to the expiry \<^verbatim>\<open>refreshTokenExp\<close>
  and not to one computed from the configured duration, and the store afterwards is the
  old one with the first record of the old token removed and the record of the new
  token, with that expiry, appended.
\<close>

theorem refreshToken_keeps_expiry:
  assumes "now s < refreshTokenExp a"
  shows "\<exists>r. refreshToken e a s =
           (Inr r,
            s\<lparr>refreshTokens :=
                deleteOne (\<lambda>d. token d = rf_refreshToken a) (refreshTokens s) @
                [\<lparr>token = res_refreshToken r, rt_iat = now s,
                  rt_exp = refreshTokenExp a\<rparr>]\<rparr>) \<and>
           newRefreshExpiry e (now s) (Inr r) = Some (refreshTokenExp a)"
  using assms
  by (simp add: refreshToken_live Let_def newRefreshExpiry_def refreshPayload_def
      decodeRefreshToken_def signRefreshToken_def verifyToken_signToken)

text \<open>
  Rotating Alice's token at 1000 with its own expiry 87300.
\<close>

theorem refreshToken_keeps_expiry_witness:
  "now exampleState < refreshTokenExp (rotation 87300) \<and>
   (\<exists>r. refreshToken exampleEnv (rotation 87300) exampleState =
          (Inr r,
           exampleState\<lparr>refreshTokens :=
             [\<lparr>token = res_refreshToken r, rt_iat = 1000, rt_exp = 87300\<rparr>]\<rparr>) \<and>
        newRefreshExpiry exampleEnv 1000 (Inr r) = Some 87300)"
proof -
  have h: "now exampleState < refreshTokenExp (rotation 87300)"
    by (simp add: exampleState_def rotation_def)
  have "deleteOne (\<lambda>d. token d = rf_refreshToken (rotation 87300))
          (refreshTokens exampleState) = []"
    by (simp add: exampleState_def rotation_def)
  moreover have "now exampleState = 1000" "refreshTokenExp (rotation 87300) = 87300"
    by (simp_all add: exampleState_def rotation_def)
  ultimately show ?thesis
    using refreshToken_keeps_expiry [OF h, of exampleEnv] h by simp
qed

text \<open>
  Claim C3, as stated, fails: after \<^verbatim>\<open>logout\<close> of Alice's refresh token, whose
  record the store held, \<^verbatim>\<open>refreshToken\<close> presented with that token does not fail.
  The service does not look the presented token up.
\<close>

theorem refreshToken_after_logout_counterexample:
  "findOne (\<lambda>d. token d = aliceRefreshToken) (refreshTokens exampleState) \<noteq> None \<and>
   \<not> isl (fst (refreshToken exampleEnv (rotation 87300)
                 (snd (logout aliceRefreshToken exampleState))))"
  by (simp add: refreshToken_live logout_def refreshTokens_deleteOne_def rotation_def
      exampleState_def Let_def findOne_def)

text \<open>
  Claim C3, amended. For every token string \<open>t\<close> of which the store holds at most one
  record, \<^verbatim>\<open>logout\<close> succeeds and leaves no record of \<open>t\<close>: a lookup by token finds
  nothing. \<^verbatim>\<open>refreshToken\<close> presented with \<open>t\<close> afterwards returns what it returns
  without the logout; when it fails, it fails with the codec's \<open>Expired\<close>, never with
  a not-found error.
\<close>

theorem logout_removes_record:
  assumes "length (filter (\<lambda>d. token d = t) (refreshTokens s)) \<le> 1"
  shows "fst (logout t s) = Inr True \<and>
         findOne (\<lambda>d. token d = t) (refreshTokens (snd (logout t s))) = None \<and>
         fst (refreshToken e (a\<lparr>rf_refreshToken := t\<rparr>) (snd (logout t s))) =
           fst (refreshToken e (a\<lparr>rf_refreshToken := t\<rparr>) s) \<and>
         (case fst (refreshToken e (a\<lparr>rf_refreshToken := t\<rparr>) (snd (logout t s))) of
            Inl err \<Rightarrow> err = JsonWebTokenError Expired
          | Inr r \<Rightarrow> True)"
proof -
  have "findOne (\<lambda>d. token d = t) (refreshTokens (snd (logout t s))) = None"
    using assms by (simp add: logout_def refreshTokens_deleteOne_def findOne_def find_deleteOne)
  moreover have "fst (refreshToken e b (snd (logout t s))) = fst (refreshToken e b s)" for b
    by (simp add: refreshToken_def logout_def refreshTokens_deleteOne_def Let_def
        split: prod.splits sum.splits)
  moreover have "case fst (refreshToken e b s) of
                   Inl err \<Rightarrow> err = JsonWebTokenError Expired | Inr r \<Rightarrow> True" for b
    by (simp add: refreshToken_def Let_def signAccessAndRefreshToken_def
        decodeRefreshToken_def signRefreshToken_def verifyToken_signToken
        split: sum.splits)
  ultimately show ?thesis by (simp add: logout_def)
qed

text \<open>
  Alice's token, of which the scenario stores one record.
\<close>

theorem logout_removes_record_witness:
  "length (filter (\<lambda>d. token d = aliceRefreshToken) (refreshTokens exampleState)) \<le> 1 \<and>
   findOne (\<lambda>d. token d = aliceRefreshToken)
     (refreshTokens (snd (logout aliceRefreshToken exampleState))) = None \<and>
   fst (refreshToken exampleEnv (rotation 87300) (snd (logout aliceRefreshToken exampleState))) =
     fst (refreshToken exampleEnv (rotation 87300) exampleState)"
proof -
  have h: "length (filter (\<lambda>d. token d = aliceRefreshToken) (refreshTokens exampleState)) \<le> 1"
    by (simp add: exampleState_def)
  have "(rotation 87300)\<lparr>rf_refreshToken := aliceRefreshToken\<rparr> = rotation 87300"
    by (simp add: rotation_def)
  with logout_removes_record [OF h, of exampleEnv "rotation 87300"] h
  show ?thesis by simp
qed

text \<open>
  Claim C4, as stated, fails: at 90000 a rotation of Alice's token, whose expiry 87300
  has passed, signs the new token, deletes the old record and then fails to decode the
  new token. The call fails and the store is left with neither the old record nor a
  new one.
\<close>

theorem refreshToken_failure_counterexample:
  "refreshTokens (exampleState\<lparr>now := 90000\<rparr>) =
     [\<lparr>token = aliceRefreshToken, rt_iat = 900, rt_exp = 87300\<rparr>] \<and>
   refreshToken exampleEnv (rotation 87300) (exampleState\<lparr>now := 90000\<rparr>) =
     (Inl (JsonWebTokenError Expired), exampleState\<lparr>now := 90000, refreshTokens := []\<rparr>)"
proof -
  have "refreshTokenExp (rotation 87300) \<noteq> 0"
    and "refreshTokenExp (rotation 87300) \<le> now (exampleState\<lparr>now := 90000\<rparr>)"
    by (simp_all add: rotation_def)
  then have "refreshToken exampleEnv (rotation 87300) (exampleState\<lparr>now := 90000\<rparr>) =
      (Inl (JsonWebTokenError Expired),
       exampleState\<lparr>now := 90000, refreshTokens :=
         deleteOne (\<lambda>r. token r = rf_refreshToken (rotation 87300))
           (refreshTokens (exampleState\<lparr>now := 90000\<rparr>))\<rparr>)"
    by (rule refreshToken_lapsed)
  then show ?thesis
    by (simp add: exampleState_def rotation_def)
qed

lemma register_refreshTokens:
  "case register e uid body s of
     (Inl err, s') \<Rightarrow> refreshTokens s' = refreshTokens s
   | (Inr r, s') \<Rightarrow>
       refreshTokens s' =
         refreshTokens s @
         [\<lparr>token = res_refreshToken r, rt_iat = now s,
           rt_exp = now s + JWT_REFRESH_TOKEN_EXPIRED_IN e\<rparr>]"
  by (simp add: register_def Let_def sendVerifyEmail_def users_insertOne_def
      signAccessAndRefreshToken_def decodeRefreshToken_def signRefreshToken_def
      verifyToken_signToken refreshTokens_insertOne_def split: option.splits)

lemma login_refreshTokens:
  "case login e user s of
     (Inl err, s') \<Rightarrow> refreshTokens s' = refreshTokens s
   | (Inr r, s') \<Rightarrow>
       refreshTokens s' =
         refreshTokens s @
         [\<lparr>token = res_refreshToken r, rt_iat = now s,
           rt_exp = now s + JWT_REFRESH_TOKEN_EXPIRED_IN e\<rparr>]"
  by (simp add: login_result Let_def)

lemma refreshToken_refreshTokens:
  "case refreshToken e a s of
     (Inl err, s') \<Rightarrow>
       refreshTokens s' = deleteOne (\<lambda>d. token d = rf_refreshToken a) (refreshTokens s)
   | (Inr r, s') \<Rightarrow>
       refreshTokens s' =
         deleteOne (\<lambda>d. token d = rf_refreshToken a) (refreshTokens s) @
         [\<lparr>token = res_refreshToken r, rt_iat = now s,
           rt_exp = (if refreshTokenExp a = 0 then now s + JWT_REFRESH_TOKEN_EXPIRED_IN e
                    else refreshTokenExp a)\<rparr>]"
  by (simp add: refreshToken_def Let_def signAccessAndRefreshToken_def
      decodeRefreshToken_def signRefreshToken_def verifyToken_signToken
      refreshTokens_insertOne_def refreshTokens_deleteOne_def)

text \<open>
  Claim C4, amended. \<^verbatim>\<open>register\<close>, \<^verbatim>\<open>login\<close> and \<^verbatim>\<open>refreshToken\<close> are not
  transactional. When one of them succeeds, the record of the refresh token it returns
  has been appended to the store; when \<^verbatim>\<open>register\<close> or \<^verbatim>\<open>login\<close> fails, the
  refresh tokens stored are unchanged; when \<^verbatim>\<open>refreshToken\<close> fails, the first record
  of the old token has been deleted all the same and no record has been added.
\<close>

theorem session_store_effects:
  "(case register e uid body s of
      (Inl err, s') \<Rightarrow> refreshTokens s' = refreshTokens s
    | (Inr r, s') \<Rightarrow>
        refreshTokens s' =
          refreshTokens s @
          [\<lparr>token = res_refreshToken r, rt_iat = now s,
            rt_exp = now s + JWT_REFRESH_TOKEN_EXPIRED_IN e\<rparr>]) \<and>
   (case login e user s of
      (Inl err, s') \<Rightarrow> refreshTokens s' = refreshTokens s
    | (Inr r, s') \<Rightarrow>
        refreshTokens s' =
          refreshTokens s @
          [\<lparr>token = res_refreshToken r, rt_iat = now s,
            rt_exp = now s + JWT_REFRESH_TOKEN_EXPIRED_IN e\<rparr>]) \<and>
   (case refreshToken e a s of
      (Inl err, s') \<Rightarrow>
        refreshTokens s' = deleteOne (\<lambda>d. token d = rf_refreshToken a) (refreshTokens s)
    | (Inr r, s') \<Rightarrow>
        refreshTokens s' =
          deleteOne (\<lambda>d. token d = rf_refreshToken a) (refreshTokens s) @
          [\<lparr>token = res_refreshToken r, rt_iat = now s,
            rt_exp = (if refreshTokenExp a = 0 then now s + JWT_REFRESH_TOKEN_EXPIRED_IN e
                    else refreshTokenExp a)\<rparr>])"
  by (intro conjI register_refreshTokens login_refreshTokens refreshToken_refreshTokens)

text \<open>
  Both outcomes occur: Alice's login at 1000 succeeds and appends a record; the rotation
  at 90000 fails and leaves the store empty.
\<close>

theorem session_store_effects_witness:
  "(case login exampleEnv alice exampleState of
      (Inl err, s') \<Rightarrow> False
    | (Inr r, s') \<Rightarrow>
        refreshTokens s' =
          refreshTokens exampleState @
          [\<lparr>token = res_refreshToken r, rt_iat = 1000, rt_exp = 87400\<rparr>]) \<and>
   (case refreshToken exampleEnv (rotation 87300) (exampleState\<lparr>now := 90000\<rparr>) of
      (Inl err, s') \<Rightarrow> refreshTokens s' = []
    | (Inr r, s') \<Rightarrow> False)"
proof -
  have "\<not> isl (fst (login exampleEnv alice exampleState))"
    by (simp add: login_result Let_def exampleEnv_def)
  moreover have "isl (fst (refreshToken exampleEnv (rotation 87300)
      (exampleState\<lparr>now := 90000\<rparr>)))"
    by (simp add: refreshToken_lapsed rotation_def)
  moreover have "now exampleState = 1000" "JWT_REFRESH_TOKEN_EXPIRED_IN exampleEnv = 86400"
    and "deleteOne (\<lambda>d. token d = rf_refreshToken (rotation 87300))
           (refreshTokens (exampleState\<lparr>now := 90000\<rparr>)) = []"
    by (simp_all add: exampleState_def exampleEnv_def rotation_def)
  ultimately show ?thesis
    using session_store_effects [where e = exampleEnv and s = exampleState and user = alice]
      session_store_effects [where e = exampleEnv and s = "exampleState\<lparr>now := 90000\<rparr>"
        and a = "rotation 87300"]
    by (auto split: prod.splits sum.splits)
qed

section \<open>The user view of a result\<close>

lemma register_view:
  "fst (register e uid body s) = Inr r \<Longrightarrow> \<exists>u. res_user r = omit (toDocument u) omittedKeys"
  by (auto simp: register_def Let_def split: prod.splits sum.splits option.splits)

lemma verifyEmail_view:
  "fst (verifyEmail e uid s) = Inr r \<Longrightarrow> \<exists>u. res_user r = omit (toDocument u) omittedKeys"
  by (auto simp: verifyEmail_def Let_def split: prod.splits sum.splits option.splits)

lemma resetPassword_view:
  "fst (resetPassword e a s) = Inr r \<Longrightarrow> \<exists>u. res_user r = omit (toDocument u) omittedKeys"
  by (auto simp: resetPassword_def Let_def split: prod.splits sum.splits option.splits)

lemma omitted_view_sanitized:
  "\<not> has_key (omit d omittedKeys) ''password'' \<and>
   \<not> has_key (omit d omittedKeys) ''verifyEmailToken'' \<and>
   \<not> has_key (omit d omittedKeys) ''forgotPasswordToken''"
  by (simp add: omit_keys omittedKeys_def)

text \<open>
  Claim C6. Whenever \<^verbatim>\<open>register\<close>, \<^verbatim>\<open>verifyEmail\<close> or \<^verbatim>\<open>resetPassword\<close>
  succeeds, the user view of the result has no key \<^verbatim>\<open>password\<close>,
  \<^verbatim>\<open>verifyEmailToken\<close> or \<^verbatim>\<open>forgotPasswordToken\<close>.
\<close>

theorem user_view_is_sanitized:
  "(fst (register e uid body s) = Inr r1 \<longrightarrow>
      \<not> has_key (res_user r1) ''password'' \<and>
      \<not> has_key (res_user r1) ''verifyEmailToken'' \<and>
      \<not> has_key (res_user r1) ''forgotPasswordToken'') \<and>
   (fst (verifyEmail e vid s) = Inr r2 \<longrightarrow>
      \<not> has_key (res_user r2) ''password'' \<and>
      \<not> has_key (res_user r2) ''verifyEmailToken'' \<and>
      \<not> has_key (res_user r2) ''forgotPasswordToken'') \<and>
   (fst (resetPassword e a s) = Inr r3 \<longrightarrow>
      \<not> has_key (res_user r3) ''password'' \<and>
      \<not> has_key (res_user r3) ''verifyEmailToken'' \<and>
      \<not> has_key (res_user r3) ''forgotPasswordToken'')"
proof -
  have clean:
    "\<not> has_key (res_user r) ''password'' \<and>
     \<not> has_key (res_user r) ''verifyEmailToken'' \<and>
     \<not> has_key (res_user r) ''forgotPasswordToken''"
    if "\<exists>u. res_user r = omit (toDocument u) omittedKeys" for r :: AuthResult
    using that omitted_view_sanitized by auto
  show ?thesis
    using clean register_view verifyEmail_view resetPassword_view by blast
qed

text \<open>
  The three operations succeed in the scenario, and their views are clean.
\<close>

theorem user_view_is_sanitized_witness:
  "\<not> isl (fst (register exampleEnv bobId bobBody exampleState)) \<and>
   \<not> isl (fst (verifyEmail exampleEnv aliceId exampleState)) \<and>
   \<not> isl (fst (resetPassword exampleEnv \<lparr>rp_password = ''changed'', rp_userId = aliceId\<rparr>
                 exampleState)) \<and>
   \<not> has_key (res_user (projr (fst (register exampleEnv bobId bobBody exampleState))))
       ''password'' \<and>
   \<not> has_key (res_user (projr (fst (verifyEmail exampleEnv aliceId exampleState))))
       ''verifyEmailToken'' \<and>
   \<not> has_key (res_user (projr (fst (resetPassword exampleEnv
         \<lparr>rp_password = ''changed'', rp_userId = aliceId\<rparr> exampleState))))
       ''forgotPasswordToken''"
proof -
  let ?a = "\<lparr>rp_password = ''changed'', rp_userId = aliceId\<rparr>"
  have 1: "\<not> isl (fst (register exampleEnv bobId bobBody exampleState))"
    by (rule register_bob_succeeds)
  have 2: "\<not> isl (fst (verifyEmail exampleEnv aliceId exampleState))"
    by (simp add: verifyEmail_present [OF new_ObjectId_aliceId alice_present] Let_def)
  have "new_ObjectId (rp_userId ?a) = Inr (ObjectIdHex aliceId)"
    by (simp add: new_ObjectId_aliceId)
  then have 3: "\<not> isl (fst (resetPassword exampleEnv ?a exampleState))"
    by (simp add: resetPassword_present [OF _ alice_present] Let_def)
  from 1 2 3 show ?thesis
    using user_view_is_sanitized [of exampleEnv bobId bobBody exampleState
        "projr (fst (register exampleEnv bobId bobBody exampleState))"
        aliceId "projr (fst (verifyEmail exampleEnv aliceId exampleState))"
        ?a "projr (fst (resetPassword exampleEnv ?a exampleState))"]
    by (simp add: sum.collapse(2))
qed

text \<open>
  Claim C8. Whenever \<^verbatim>\<open>loginController\<close> succeeds for a request that carries a
  user, the \<^verbatim>\<open>user\<close> of the response's data is that user's whole document: it
  has the keys \<^verbatim>\<open>password\<close>, \<^verbatim>\<open>verifyEmailToken\<close> and
  \<^verbatim>\<open>forgotPasswordToken\<close>, with the stored hash and the stored tokens as values.
\<close>

theorem loginController_returns_stored_user:
  assumes "req_user req = Some user"
      and "fst (loginController e req s) = Inr resp"
  shows "res_user (data resp) = toDocument user \<and>
         map_of (res_user (data resp)) ''password'' = Some (JString (password user)) \<and>
         map_of (res_user (data resp)) ''verifyEmailToken'' =
           Some (JToken (verifyEmailToken user)) \<and>
         map_of (res_user (data resp)) ''forgotPasswordToken'' =
           Some (JToken (forgotPasswordToken user)) \<and>
         has_key (res_user (data resp)) ''password'' \<and>
         has_key (res_user (data resp)) ''verifyEmailToken'' \<and>
         has_key (res_user (data resp)) ''forgotPasswordToken''"
proof -
  from assms have "res_user (data resp) = toDocument user"
    by (auto simp: loginController_def split: prod.splits sum.splits)
  then show ?thesis
    by (simp add: toDocument_def has_key_def)
qed

text \<open>
  Alice logging in: the response carries her stored password hash.
\<close>

theorem loginController_returns_stored_user_witness:
  "req_user \<lparr>req_user = Some alice\<rparr> = Some alice \<and>
   \<not> isl (fst (loginController exampleEnv \<lparr>req_user = Some alice\<rparr> exampleState)) \<and>
   map_of (res_user (data (projr (fst (loginController exampleEnv \<lparr>req_user = Some alice\<rparr>
       exampleState))))) ''password'' = Some (JString ''#secret'')"
proof -
  let ?req = "\<lparr>req_user = Some alice\<rparr>"
  have ok: "\<not> isl (fst (loginController exampleEnv ?req exampleState))"
    by (simp add: loginController_def login_result Let_def exampleEnv_def)
  then have eq: "fst (loginController exampleEnv ?req exampleState) =
      Inr (projr (fst (loginController exampleEnv ?req exampleState)))"
    by simp
  have pw: "password alice = ''#secret''" by (simp add: alice_def)
  have "req_user ?req = Some alice" by simp
  from loginController_returns_stored_user [OF this eq]
  have "map_of (res_user (data (projr (fst (loginController exampleEnv ?req exampleState)))))
          ''password'' = Some (JString (password alice))"
    by blast
  with ok pw show ?thesis by simp
qed

section \<open>Operations on an absent user\<close>

text \<open>
  Claim C7, as stated, fails: with no user stored, \<^verbatim>\<open>resendEmailVerify\<close>,
  \<^verbatim>\<open>verifyEmail\<close> and \<^verbatim>\<open>resetPassword\<close> called with a well-formed identifier end
  in the run time's \<^verbatim>\<open>TypeError\<close>, raised by reading a property of \<^verbatim>\<open>null\<close>, and not
  in a not-found or invalid-state error of the service.
\<close>

theorem absent_user_TypeError_counterexample:
  "findOne (\<lambda>u. u_id u = ObjectIdHex aliceId) (users (exampleState\<lparr>users := []\<rparr>)) = None \<and>
   fst (resendEmailVerify exampleEnv aliceId (exampleState\<lparr>users := []\<rparr>)) = Inl TypeError \<and>
   fst (verifyEmail exampleEnv aliceId (exampleState\<lparr>users := []\<rparr>)) = Inl TypeError \<and>
   fst (resetPassword exampleEnv \<lparr>rp_password = ''changed'', rp_userId = aliceId\<rparr>
          (exampleState\<lparr>users := []\<rparr>)) = Inl TypeError"
  by (simp add: resendEmailVerify_def verifyEmail_def resetPassword_def new_ObjectId_aliceId
      findOne_def findOneAndUpdate_def Let_def)

text \<open>
  Claim C7, amended. For every well-formed identifier of which the store holds no user,
  \<^verbatim>\<open>resendEmailVerify\<close>, \<^verbatim>\<open>verifyEmail\<close> and \<^verbatim>\<open>resetPassword\<close> fail with a
  \<^verbatim>\<open>TypeError\<close> and leave the state as it was: nothing is written and no mail is
  sent.
\<close>

theorem absent_user_fails_unchanged:
  assumes "new_ObjectId uid = Inr oid"
      and "findOne (\<lambda>u. u_id u = oid) (users s) = None"
  shows "resendEmailVerify e uid s = (Inl TypeError, s) \<and>
         verifyEmail e uid s = (Inl TypeError, s) \<and>
         resetPassword e \<lparr>rp_password = pw, rp_userId = uid\<rparr> s = (Inl TypeError, s)"
  using assms
  by (simp add: resendEmailVerify_def verifyEmail_def resetPassword_def findOne_def
      findOneAndUpdate_def Let_def)

text \<open>
  Alice's identifier against a store without users.
\<close>

theorem absent_user_fails_unchanged_witness:
  "new_ObjectId aliceId = Inr (ObjectIdHex aliceId) \<and>
   findOne (\<lambda>u. u_id u = ObjectIdHex aliceId) (users (exampleState\<lparr>users := []\<rparr>)) = None \<and>
   verifyEmail exampleEnv aliceId (exampleState\<lparr>users := []\<rparr>) =
     (Inl TypeError, exampleState\<lparr>users := []\<rparr>)"
proof -
  have h: "findOne (\<lambda>u. u_id u = ObjectIdHex aliceId) (users (exampleState\<lparr>users := []\<rparr>)) = None"
    by (simp add: findOne_def)
  from absent_user_fails_unchanged [OF new_ObjectId_aliceId h, of exampleEnv]
  show ?thesis using new_ObjectId_aliceId h by simp
qed

section \<open>Password reset\<close>

text \<open>
  Claim C9. For every \<^verbatim>\<open>resetPassword\<close> call on a stored user, the stored user
  afterwards is the one before with the password set to the hash of the new one, the
  forgot-password token cleared and \<^verbatim>\<open>createdAt\<close> set to the clock;
  \<^verbatim>\<open>updatedAt\<close> and every other field keep their values. The other users, the refresh
  tokens, the product categories, the mails and the clock are unchanged.
\<close>

theorem resetPassword_refreshes_createdAt:
  assumes "new_ObjectId (rp_userId a) = Inr oid"
      and "findOne (\<lambda>d. u_id d = oid) (users s) = Some u"
  shows "findOne (\<lambda>d. u_id d = oid) (users (snd (resetPassword e a s))) =
           Some (u\<lparr>password := hashPassword e (rp_password a),
                   forgotPasswordToken := Plain [], createdAt := now s\<rparr>) \<and>
         map_option updatedAt (findOne (\<lambda>d. u_id d = oid) (users (snd (resetPassword e a s)))) =
           Some (updatedAt u) \<and>
         length (users (snd (resetPassword e a s))) = length (users s) \<and>
         filter (\<lambda>d. u_id d \<noteq> oid) (users (snd (resetPassword e a s))) =
           filter (\<lambda>d. u_id d \<noteq> oid) (users s) \<and>
         refreshTokens (snd (resetPassword e a s)) = refreshTokens s \<and>
         productCategories (snd (resetPassword e a s)) = productCategories s \<and>
         outbox (snd (resetPassword e a s)) = outbox s \<and>
         now (snd (resetPassword e a s)) = now s"
proof -
  let ?upd = "\<lambda>d. d\<lparr>password := hashPassword e (rp_password a),
                     forgotPasswordToken := Plain [], createdAt := now s\<rparr>"
  from assms have present: "find (\<lambda>d. u_id d = oid) (users s) = Some u"
    by (simp add: findOne_def)
  have after: "snd (resetPassword e a s) =
      s\<lparr>users := updateOne (\<lambda>d. u_id d = oid) ?upd (users s)\<rparr>"
    by (simp add: resetPassword_present [OF assms(1) present] Let_def)
  have "u_id (?upd u) = oid"
    using present by (auto simp: find_Some_iff)
  then have "find (\<lambda>d. u_id d = oid) (updateOne (\<lambda>d. u_id d = oid) ?upd (users s)) =
      Some (?upd u)"
    using present by (intro find_updateOne) simp_all
  moreover have "filter (\<lambda>d. \<not> u_id d = oid) (updateOne (\<lambda>d. u_id d = oid) ?upd (users s)) =
      filter (\<lambda>d. \<not> u_id d = oid) (users s)"
    by (rule filter_updateOne) simp
  ultimately show ?thesis
    by (simp add: after findOne_def length_updateOne)
qed

text \<open>
  Resetting Alice's password at 1000: the stored document afterwards.
\<close>

theorem resetPassword_refreshes_createdAt_witness:
  "new_ObjectId (rp_userId \<lparr>rp_password = ''changed'', rp_userId = aliceId\<rparr>) =
     Inr (ObjectIdHex aliceId) \<and>
   findOne (\<lambda>d. u_id d = ObjectIdHex aliceId) (users exampleState) = Some alice \<and>
   users (snd (resetPassword exampleEnv \<lparr>rp_password = ''changed'', rp_userId = aliceId\<rparr>
                 exampleState)) =
     [alice\<lparr>password := ''#changed'', forgotPasswordToken := Plain [], createdAt := 1000\<rparr>] \<and>
   createdAt alice = 900 \<and> updatedAt alice = 900"
proof -
  let ?a = "\<lparr>rp_password = ''changed'', rp_userId = aliceId\<rparr>"
  let ?s = "snd (resetPassword exampleEnv ?a exampleState)"
  have h1: "new_ObjectId (rp_userId ?a) = Inr (ObjectIdHex aliceId)"
    by (simp add: new_ObjectId_aliceId)
  have h2: "findOne (\<lambda>d. u_id d = ObjectIdHex aliceId) (users exampleState) = Some alice"
    by (simp add: findOne_def alice_present)
  have one: "length (users exampleState) = 1"
    by (simp add: exampleState_def)
  have env: "hashPassword exampleEnv ''changed'' = ''#changed''" "now exampleState = 1000"
    by (simp_all add: exampleEnv_def exampleState_def)
  from resetPassword_refreshes_createdAt [OF h1 h2, of exampleEnv]
  have found: "findOne (\<lambda>d. u_id d = ObjectIdHex aliceId) (users ?s) =
      Some (alice\<lparr>password := ''#changed'', forgotPasswordToken := Plain [], createdAt := 1000\<rparr>)"
    and len: "length (users ?s) = 1"
    using one env by simp_all
  from len obtain d where d: "users ?s = [d]"
    by (cases "users ?s") simp_all
  with found have "d = alice\<lparr>password := ''#changed'', forgotPasswordToken := Plain [],
      createdAt := 1000\<rparr>"
    by (simp add: findOne_def split: if_splits)
  with d h1 h2 show ?thesis
    by (simp add: alice_def)
qed

section \<open>Validation of the product category identifier\<close>

lemma fromCodeUnits_toCodeUnits: "fromCodeUnits (toCodeUnits str) = Some str"
proof -
  have "(of_char c :: nat) < 256" for c
    using of_char_mod_256 [of c, where ?'a = nat]
    by (metis mod_less_divisor zero_less_numeral)
  then have "list_all (\<lambda>u. u < 256) (toCodeUnits str)"
    by (simp add: toCodeUnits_def list_all_iff)
  moreover have "map char_of (toCodeUnits str) = str"
    by (simp add: toCodeUnits_def comp_def)
  ultimately show ?thesis
    by (simp add: fromCodeUnits_def)
qed

text \<open>
  Claim C10. \<^verbatim>\<open>productCategoryIdValidator\<close> rejects a parameter that is empty
  after trimming with \<^verbatim>\<open>BadRequest\<close>, one that is not a valid \<^verbatim>\<open>ObjectId\<close> with
  \<^verbatim>\<open>BadRequest\<close>, and a valid one that no stored category has as its identifier with
  \<^verbatim>\<open>NotFound\<close>; it passes exactly when the parameter is valid and a stored category
  has it as its identifier.
\<close>

theorem productCategoryIdValidator_outcomes:
  "(trim param = [] \<longrightarrow>
      productCategoryIdValidator param s =
        Inl (ErrorWithStatus PRODUCT_CATEGORY_ID_IS_REQUIRED BadRequest)) \<and>
   (trim param \<noteq> [] \<and> \<not> ObjectId_isValid_value (trim param) \<longrightarrow>
      productCategoryIdValidator param s =
        Inl (ErrorWithStatus PRODUCT_CATEGORY_ID_IS_INVALID BadRequest)) \<and>
   (ObjectId_isValid_value (trim param) \<and>
    \<not> list_ex (\<lambda>c. new_ObjectId_value (trim param) = Inr (pc_id c)) (productCategories s) \<longrightarrow>
      productCategoryIdValidator param s =
        Inl (ErrorWithStatus PRODUCT_CATEGORY_NOT_FOUND NotFound)) \<and>
   (productCategoryIdValidator param s = Inr True) =
     (ObjectId_isValid_value (trim param) \<and>
      list_ex (\<lambda>c. new_ObjectId_value (trim param) = Inr (pc_id c)) (productCategories s))"
proof -
  have find_ex: "list_ex P xs = (find P xs \<noteq> None)" for P :: "ProductCategory \<Rightarrow> bool" and xs
    by (auto simp: find_None_iff list_ex_iff)
  have empty: "\<not> ObjectId_isValid_value []"
    by (simp add: ObjectId_isValid_value_def fromCodeUnits_def ObjectId_isValid_def
        checkForHexRegExp_def)
  have valid: "\<exists>oid. new_ObjectId_value v = Inr oid" if "ObjectId_isValid_value v" for v
    using that
    by (auto simp: ObjectId_isValid_value_def new_ObjectId_value_def ObjectId_isValid_def
        new_ObjectId_def split: option.splits)
  show ?thesis
  proof (cases "trim param = []")
    case True
    then show ?thesis
      by (simp add: productCategoryIdValidator_def productCategoryId_custom_def empty)
  next
    case False
    show ?thesis
    proof (cases "ObjectId_isValid_value (trim param)")
      case invalid: False
      with False show ?thesis
        by (simp add: productCategoryIdValidator_def productCategoryId_custom_def)
    next
      case True
      then obtain oid where n: "new_ObjectId_value (trim param) = Inr oid"
        using valid by blast
      have m: "(\<lambda>c. oid = pc_id c) = (\<lambda>c. pc_id c = oid)"
        by auto
      from False True show ?thesis
        by (cases "find (\<lambda>c. pc_id c = oid) (productCategories s)")
          (simp_all add: productCategoryIdValidator_def productCategoryId_custom_def n m
            findOne_def find_ex)
    qed
  qed
qed

text \<open>
  The outcomes in the scenario: a parameter of a space and a no-break space, a word,
  Alice's identifier, which is valid but names no category, and the identifier of the
  stored category between two no-break spaces.
\<close>

theorem productCategoryIdValidator_outcomes_witness:
  "trim [0x20, 0xA0] = [] \<and>
   productCategoryIdValidator [0x20, 0xA0] exampleState =
     Inl (ErrorWithStatus PRODUCT_CATEGORY_ID_IS_REQUIRED BadRequest) \<and>
   trim (toCodeUnits '' shoes '') \<noteq> [] \<and>
   \<not> ObjectId_isValid_value (trim (toCodeUnits '' shoes '')) \<and>
   productCategoryIdValidator (toCodeUnits '' shoes '') exampleState =
     Inl (ErrorWithStatus PRODUCT_CATEGORY_ID_IS_INVALID BadRequest) \<and>
   ObjectId_isValid_value (trim (toCodeUnits aliceId)) \<and>
   \<not> list_ex (\<lambda>c. new_ObjectId_value (trim (toCodeUnits aliceId)) = Inr (pc_id c))
       (productCategories exampleState) \<and>
   productCategoryIdValidator (toCodeUnits aliceId) exampleState =
     Inl (ErrorWithStatus PRODUCT_CATEGORY_NOT_FOUND NotFound) \<and>
   ObjectId_isValid_value (trim (0xA0 # toCodeUnits shoesId @ [0xA0])) \<and>
   list_ex (\<lambda>c. new_ObjectId_value (trim (0xA0 # toCodeUnits shoesId @ [0xA0])) = Inr (pc_id c))
     (productCategories exampleState) \<and>
   productCategoryIdValidator (0xA0 # toCodeUnits shoesId @ [0xA0]) exampleState = Inr True"
proof -
  have blank: "trim [0x20, 0xA0] = []"
    by (simp add: trim_def isSpace_def)
  have word: "trim (toCodeUnits '' shoes '') = toCodeUnits ''shoes''"
    by (simp add: trim_def isSpace_def toCodeUnits_def)
  have malformed: "\<not> ObjectId_isValid_value (toCodeUnits ''shoes'')"
    by (simp add: ObjectId_isValid_value_def fromCodeUnits_toCodeUnits ObjectId_isValid_def
        checkForHexRegExp_def)
  have ta: "trim (toCodeUnits aliceId) = toCodeUnits aliceId"
    by (simp add: trim_def isSpace_def toCodeUnits_def aliceId_def)
  have ts: "trim (0xA0 # toCodeUnits shoesId @ [0xA0]) = toCodeUnits shoesId"
    by (simp add: trim_def isSpace_def toCodeUnits_def shoesId_def)
  have va: "ObjectId_isValid_value (toCodeUnits aliceId)"
    and vs: "ObjectId_isValid_value (toCodeUnits shoesId)"
    by (simp_all add: ObjectId_isValid_value_def fromCodeUnits_toCodeUnits ObjectId_isValid_def
        checkForHexRegExp_def aliceId_def shoesId_def)
  have na: "new_ObjectId_value (toCodeUnits aliceId) = Inr (ObjectIdHex aliceId)"
    and ns: "new_ObjectId_value (toCodeUnits shoesId) = Inr (ObjectIdHex shoesId)"
    by (simp_all add: new_ObjectId_value_def fromCodeUnits_toCodeUnits new_ObjectId_def
        checkForHexRegExp_def aliceId_def shoesId_def toLowerHex_def)
  have absent: "\<not> list_ex (\<lambda>c. new_ObjectId_value (trim (toCodeUnits aliceId)) = Inr (pc_id c))
      (productCategories exampleState)"
    by (simp add: ta na exampleState_def shoes_def) (simp add: aliceId_def shoesId_def)
  have present: "list_ex
      (\<lambda>c. new_ObjectId_value (trim (0xA0 # toCodeUnits shoesId @ [0xA0])) = Inr (pc_id c))
      (productCategories exampleState)"
    by (simp add: ts ns exampleState_def shoes_def)
  have nonempty: "toCodeUnits ''shoes'' \<noteq> []"
    by (simp add: toCodeUnits_def)
  from productCategoryIdValidator_outcomes [of "[0x20, 0xA0]" exampleState]
    productCategoryIdValidator_outcomes [of "toCodeUnits '' shoes ''" exampleState]
    productCategoryIdValidator_outcomes [of "toCodeUnits aliceId" exampleState]
    productCategoryIdValidator_outcomes [of "0xA0 # toCodeUnits shoesId @ [0xA0]" exampleState]
    blank word malformed nonempty ta ts va vs absent present
  show ?thesis by simp
qed

end
